theory Spec2Isabelle
  imports Main
begin

section \<open>JSON values as the JavaScript of \<open>app.tsx\<close> observes them\<close>

text \<open>
  The component reads response bodies with \<open>response.json()\<close>, whose result has the
  TypeScript type \<open>any\<close>: no shape is enforced at run time. A body is therefore a JSON
  value. The component does two things with a number: it tests it for truth and it
  converts it to a string. A number is therefore given by its printed form, the result of
  JavaScript's number-to-string conversion (\<open>12\<close>, \<open>-0.5\<close>, \<open>1e+21\<close>); the numbers
  that are false, \<open>0\<close> and \<open>-0\<close>, both print as \<open>0\<close>. An object is the list of its own
  properties, each key once.
\<close>

datatype json =
    JNull
  | JBool bool
  | JNum string
  | JStr string
  | JArr "json list"
  | JObj "(string \<times> json) list"

text \<open>JavaScript truthiness, as used by \<open>||\<close> and \<open>!\<close>.\<close>

fun truthy :: "json \<Rightarrow> bool" where
  "truthy JNull = False"
| "truthy (JBool b) = b"
| "truthy (JNum t) = (t \<noteq> ''0'')"
| "truthy (JStr s) = (s \<noteq> [])"
| "truthy (JArr xs) = True"
| "truthy (JObj kvs) = True"

text \<open>
  The message of the TypeError raised when an object cannot be converted to a primitive
  value (the wording of V8).
\<close>

definition object_to_primitive_error :: string where
  "object_to_primitive_error = ''Cannot convert object to primitive value''"

text \<open>
  \<open>js_String v\<close> is JavaScript's \<open>String(v)\<close>, which \<open>new Error(v)\<close> applies to its
  argument to obtain the message: \<open>Inr\<close> carries the string, \<open>Inl\<close> the message of the
  TypeError thrown. An object that owns a \<open>toString\<close> key (whose value, coming from JSON,
  is not callable) cannot be converted; any other object prints as \<open>[object Object]\<close>.
  An array prints its elements from left to right, joined by commas, \<open>null\<close> elements as
  the empty string (\<open>js_join\<close>).
\<close>

fun js_String :: "json \<Rightarrow> string + string"
  and js_join :: "json list \<Rightarrow> string + string" where
  "js_String JNull = Inr ''null''"
| "js_String (JBool b) = Inr (if b then ''true'' else ''false'')"
| "js_String (JNum t) = Inr t"
| "js_String (JStr s) = Inr s"
| "js_String (JArr xs) = js_join xs"
| "js_String (JObj kvs) =
     (if map_of kvs ''toString'' = None then Inr ''[object Object]''
      else Inl object_to_primitive_error)"
| "js_join [] = Inr []"
| "js_join (x # xs) =
     (case (if x = JNull then Inr [] else js_String x) of
        Inl e \<Rightarrow> Inl e
      | Inr a \<Rightarrow>
          (if xs = [] then Inr a
           else (case js_join xs of
                   Inl e \<Rightarrow> Inl e
                 | Inr b \<Rightarrow> Inr (a @ '','' @ b))))"

text \<open>
  The message of the TypeError raised by reading a property of \<open>null\<close> (the wording of
  V8; no result below depends on the wording).
\<close>

definition null_property_error :: "string \<Rightarrow> string" where
  "null_property_error p =
     ''Cannot read properties of null (reading '' @ [CHR 0x27] @ p @ [CHR 0x27] @ '')''"

text \<open>
  \<open>get_prop v p\<close> is the property read \<open>v.p\<close> for the names the component reads
  (\<open>error\<close>, \<open>records\<close>, \<open>url\<close>, \<open>fileName\<close>): \<open>Inl\<close> carries the message of the
  exception thrown, \<open>Inr None\<close> is \<open>undefined\<close>. Of the JSON values only objects can own
  such a property.
\<close>

fun get_prop :: "json \<Rightarrow> string \<Rightarrow> string + json option" where
  "get_prop JNull p = Inl (null_property_error p)"
| "get_prop (JObj kvs) p = Inr (map_of kvs p)"
| "get_prop (JBool b) p = Inr None"
| "get_prop (JNum n) p = Inr None"
| "get_prop (JStr s) p = Inr None"
| "get_prop (JArr xs) p = Inr None"

text \<open>\<open>or_else v d\<close> is \<open>v || d\<close>.\<close>

fun or_else :: "json option \<Rightarrow> json \<Rightarrow> json" where
  "or_else None d = d"
| "or_else (Some v) d = (if truthy v then v else d)"

section \<open>The network as the component sees it\<close>

text \<open>
  \<open>fetch\<close> either rejects (with an error whose message is given) or resolves with a
  response. \<open>response.json()\<close> either throws a SyntaxError (message given) or yields the
  parsed value. \<open>response.ok\<close> holds for the statuses 200 to 299.
\<close>

datatype json_result = SyntaxError string | Parsed json

record response =
  status :: nat
  body :: json_result

definition ok :: "response \<Rightarrow> bool" where
  "ok r = (200 \<le> status r \<and> status r \<le> 299)"

datatype fetch_result = Rejected string | Resolved response

datatype http_method = GET | POST | PUT | DELETE

text \<open>
  Every URL starts with \<open>API_BASE\<close>, built from a project id that is imported from outside
  the component; \<open>path\<close> is the rest of the URL. \<open>payload\<close> is the value handed to
  \<open>JSON.stringify\<close> for the request body. Every request carries the same authorization
  header, which is left out.
\<close>

record request =
  req_method :: http_method
  path :: string
  payload :: "json option"

text \<open>
  The guard that follows every \<open>fetch\<close> of the component:
  \<^verbatim>\<open>if (!response.ok) { const error = await response.json();
                       throw new Error(error.error || label); }\<close>
  \<open>Inl\<close> carries the message of what is thrown: the error built from the body, or the
  exception raised on the way (the body is not JSON, the body is \<open>null\<close>, the \<open>error\<close>
  field cannot be converted to a string).
\<close>

definition raise_unless_ok :: "string \<Rightarrow> response \<Rightarrow> string + unit" where
  "raise_unless_ok label r =
     (if ok r then Inr ()
      else (case body r of
              SyntaxError m \<Rightarrow> Inl m
            | Parsed error \<Rightarrow>
                (case get_prop error ''error'' of
                   Inl m \<Rightarrow> Inl m
                 | Inr v \<Rightarrow>
                     (case js_String (or_else v (JStr label)) of
                        Inl e \<Rightarrow> Inl e
                      | Inr m \<Rightarrow> Inl m))))"

section \<open>The state of the component\<close>

datatype SectionType =
    funding_opportunity
  | application
  | budget
  | budget_code
  | grant
  | subgrantee_award
  | contract
  | invoice
  | compliance

text \<open>The section as it appears in a URL.\<close>

fun section_path :: "SectionType \<Rightarrow> string" where
  "section_path funding_opportunity = ''funding_opportunity''"
| "section_path application = ''application''"
| "section_path budget = ''budget''"
| "section_path budget_code = ''budget_code''"
| "section_path grant = ''grant''"
| "section_path subgrantee_award = ''subgrantee_award''"
| "section_path contract = ''contract''"
| "section_path invoice = ''invoice''"
| "section_path compliance = ''compliance''"

text \<open>\<open>interface Record { id: string; [key: string]: any }\<close>\<close>

datatype Record = Record (rec_id: string) (rec_fields: "(string \<times> json) list")

datatype toast = ToastSuccess string | ToastError string

text \<open>
  A call in flight, with what its continuation has captured: the section of
  \<open>loadRecords\<close>, and for \<open>handleSave\<close> and \<open>handleDelete\<close> the \<open>activeSection\<close> of the
  render that started the call (and \<open>isEditing\<close>).
\<close>

datatype pending =
    LoadRecords SectionType
  | HandleSave SectionType bool
  | HandleDelete SectionType
  | HandleFileUpload

text \<open>
  The six \<open>useState\<close> cells of \<open>App\<close>, the notifications sent to \<open>toast\<close> so far, the
  network calls issued so far, and the calls still in flight (a call is named by its
  position in \<open>requests\<close>). \<open>records\<close> holds whatever \<open>setRecords\<close> was given, which
  comes from an untyped body. Output to the console is left out.
\<close>

record app =
  showLanding :: bool
  activeSection :: SectionType
  records :: json
  loading :: bool
  dialogOpen :: bool
  editingRecord :: "Record option"
  toasts :: "toast list"
  requests :: "request list"
  inflight :: "nat \<rightharpoonup> pending"

definition fetch :: "request \<Rightarrow> pending \<Rightarrow> app \<Rightarrow> app" where
  "fetch rq k s =
     s\<lparr>requests := requests s @ [rq],
       inflight := (inflight s)(length (requests s) \<mapsto> k)\<rparr>"

subsection \<open>\<open>loadRecords\<close>\<close>

definition loadRecords :: "SectionType \<Rightarrow> app \<Rightarrow> app" where
  "loadRecords section s =
     fetch \<lparr>req_method = GET, path = ''/'' @ section_path section, payload = None\<rparr>
       (LoadRecords section) (s\<lparr>loading := True\<rparr>)"

text \<open>The \<open>try\<close> block after the \<open>fetch\<close>: the error message, or the value for \<open>setRecords\<close>.\<close>

definition loadRecords_try :: "fetch_result \<Rightarrow> string + json" where
  "loadRecords_try fr =
     (case fr of
        Rejected m \<Rightarrow> Inl m
      | Resolved r \<Rightarrow>
          (case raise_unless_ok ''Failed to load records'' r of
             Inl m \<Rightarrow> Inl m
           | Inr u \<Rightarrow>
               (case body r of
                  SyntaxError m \<Rightarrow> Inl m
                | Parsed data \<Rightarrow>
                    (case get_prop data ''records'' of
                       Inl m \<Rightarrow> Inl m
                     | Inr v \<Rightarrow> Inr (or_else v (JArr []))))))"

definition loadRecords_done :: "fetch_result \<Rightarrow> app \<Rightarrow> app" where
  "loadRecords_done fr s =
     (case loadRecords_try fr of
        Inr v \<Rightarrow> s\<lparr>records := v, loading := False\<rparr>
      | Inl m \<Rightarrow>
          s\<lparr>toasts := toasts s @ [ToastError (''Failed to load records: '' @ m)],
            records := JArr [], loading := False\<rparr>)"

subsection \<open>\<open>handleSave\<close>\<close>

definition handleSave :: "json \<Rightarrow> app \<Rightarrow> app" where
  "handleSave data s =
     (case editingRecord s of
        Some r \<Rightarrow>
          fetch \<lparr>req_method = PUT,
                 path = ''/'' @ section_path (activeSection s) @ ''/'' @ rec_id r,
                 payload = Some data\<rparr>
            (HandleSave (activeSection s) True) s
      | None \<Rightarrow>
          fetch \<lparr>req_method = POST,
                 path = ''/'' @ section_path (activeSection s),
                 payload = Some data\<rparr>
            (HandleSave (activeSection s) False) s)"

definition handleSave_try :: "fetch_result \<Rightarrow> string + unit" where
  "handleSave_try fr =
     (case fr of
        Rejected m \<Rightarrow> Inl m
      | Resolved r \<Rightarrow> raise_unless_ok ''Failed to save record'' r)"

definition handleSave_done :: "SectionType \<Rightarrow> bool \<Rightarrow> fetch_result \<Rightarrow> app \<Rightarrow> app" where
  "handleSave_done section isEditing fr s =
     (case handleSave_try fr of
        Inr u \<Rightarrow>
          loadRecords section
            (s\<lparr>toasts := toasts s @
                  [ToastSuccess (if isEditing then ''Record updated successfully''
                                 else ''Record created successfully'')],
               dialogOpen := False,
               editingRecord := None\<rparr>)
      | Inl m \<Rightarrow> s\<lparr>toasts := toasts s @ [ToastError (''Failed to save record: '' @ m)]\<rparr>)"

subsection \<open>\<open>handleDelete\<close>\<close>

text \<open>\<open>confirmed\<close> is the answer of \<open>confirm(...)\<close>.\<close>

definition handleDelete :: "string \<Rightarrow> bool \<Rightarrow> app \<Rightarrow> app" where
  "handleDelete i confirmed s =
     (if \<not> confirmed then s
      else fetch \<lparr>req_method = DELETE,
                  path = ''/'' @ section_path (activeSection s) @ ''/'' @ i,
                  payload = None\<rparr>
             (HandleDelete (activeSection s)) s)"

definition handleDelete_try :: "fetch_result \<Rightarrow> string + unit" where
  "handleDelete_try fr =
     (case fr of
        Rejected m \<Rightarrow> Inl m
      | Resolved r \<Rightarrow> raise_unless_ok ''Failed to delete record'' r)"

definition handleDelete_done :: "SectionType \<Rightarrow> fetch_result \<Rightarrow> app \<Rightarrow> app" where
  "handleDelete_done section fr s =
     (case handleDelete_try fr of
        Inr u \<Rightarrow>
          loadRecords section
            (s\<lparr>toasts := toasts s @ [ToastSuccess ''Record deleted successfully'']\<rparr>)
      | Inl m \<Rightarrow> s\<lparr>toasts := toasts s @ [ToastError (''Failed to delete record: '' @ m)]\<rparr>)"

subsection \<open>\<open>handleFileUpload\<close>\<close>

definition handleFileUpload :: "app \<Rightarrow> app" where
  "handleFileUpload s =
     fetch \<lparr>req_method = POST, path = ''/upload'', payload = None\<rparr> HandleFileUpload s"

text \<open>
  What the promise of \<open>handleFileUpload\<close> settles to: the message of the error it rejects
  with, or \<open>{ url: data.url, fileName: data.fileName }\<close>. The state is not touched.
\<close>

definition handleFileUpload_try :: "fetch_result \<Rightarrow> string + (json option \<times> json option)" where
  "handleFileUpload_try fr =
     (case fr of
        Rejected m \<Rightarrow> Inl m
      | Resolved r \<Rightarrow>
          (case raise_unless_ok ''Failed to upload file'' r of
             Inl m \<Rightarrow> Inl m
           | Inr u \<Rightarrow>
               (case body r of
                  SyntaxError m \<Rightarrow> Inl m
                | Parsed data \<Rightarrow>
                    (case get_prop data ''url'' of
                       Inl m \<Rightarrow> Inl m
                     | Inr url \<Rightarrow>
                         (case get_prop data ''fileName'' of
                            Inl m \<Rightarrow> Inl m
                          | Inr fileName \<Rightarrow> Inr (url, fileName))))))"

subsection \<open>The dialog and the tabs\<close>

definition openCreateDialog :: "app \<Rightarrow> app" where
  "openCreateDialog s = s\<lparr>editingRecord := None, dialogOpen := True\<rparr>"

definition openEditDialog :: "Record \<Rightarrow> app \<Rightarrow> app" where
  "openEditDialog r s = s\<lparr>editingRecord := Some r, dialogOpen := True\<rparr>"

text \<open>The \<open>onCancel\<close> handed to the form.\<close>

definition onCancel :: "app \<Rightarrow> app" where
  "onCancel s = s\<lparr>dialogOpen := False, editingRecord := None\<rparr>"

text \<open>The \<open>onOpenChange\<close> of the dialog, which is \<open>setDialogOpen\<close> itself.\<close>

definition onOpenChange :: "bool \<Rightarrow> app \<Rightarrow> app" where
  "onOpenChange b s = s\<lparr>dialogOpen := b\<rparr>"

text \<open>
  The \<open>onValueChange\<close> of the tabs sets \<open>activeSection\<close>; the effect that depends on
  \<open>activeSection\<close> then runs \<open>loadRecords\<close>, and only when the value has changed.
\<close>

definition onValueChange :: "SectionType \<Rightarrow> app \<Rightarrow> app" where
  "onValueChange v s =
     (if v = activeSection s then s else loadRecords v (s\<lparr>activeSection := v\<rparr>))"

subsection \<open>Settling a call, events, runs\<close>

definition resolve :: "nat \<Rightarrow> fetch_result \<Rightarrow> app \<Rightarrow> app" where
  "resolve n fr s =
     (case inflight s n of
        None \<Rightarrow> s
      | Some k \<Rightarrow>
          (case k of
             LoadRecords section \<Rightarrow> loadRecords_done fr (s\<lparr>inflight := (inflight s)(n := None)\<rparr>)
           | HandleSave section isEditing \<Rightarrow>
               handleSave_done section isEditing fr (s\<lparr>inflight := (inflight s)(n := None)\<rparr>)
           | HandleDelete section \<Rightarrow>
               handleDelete_done section fr (s\<lparr>inflight := (inflight s)(n := None)\<rparr>)
           | HandleFileUpload \<Rightarrow> s\<lparr>inflight := (inflight s)(n := None)\<rparr>))"

text \<open>
  A record as the row of the table that shows it: the JSON object with its \<open>id\<close> and
  its other fields. The table is rendered, with one row for each element of \<open>records\<close>,
  when \<open>loading\<close> is false and \<open>records\<close> is not empty; the Edit and Delete buttons of
  a record exist only then.
\<close>

definition row_of :: "Record \<Rightarrow> json" where
  "row_of r = JObj ((''id'', JStr (rec_id r)) # rec_fields r)"

definition row_rendered :: "Record \<Rightarrow> app \<Rightarrow> bool" where
  "row_rendered r s =
     (\<not> loading s \<and> (case records s of JArr xs \<Rightarrow> row_of r \<in> set xs | _ \<Rightarrow> False))"

text \<open>
  What can happen to the mounted component: a user action, or a call in flight settling.
  A user action needs its control to be rendered. While \<open>showLanding\<close> holds only the
  landing page is rendered, so only its \<open>onGetStarted\<close> can be invoked. Otherwise the
  Home button, the tabs and the Add New button are there; Edit and Delete need the row
  of their record; the form (save, cancel, upload) and the dialog's own close control
  (\<open>onOpenChange(false)\<close>) need the dialog to be open.
\<close>

datatype event =
    GetStarted
  | Home
  | SelectSection SectionType
  | OpenCreate
  | OpenEdit Record
  | Cancel
  | DialogClose
  | Save json
  | Delete Record bool
  | Upload
  | Settle nat fetch_result

definition step :: "event \<Rightarrow> app \<Rightarrow> app" where
  "step e s =
     (case e of
        Settle n fr \<Rightarrow> resolve n fr s
      | GetStarted \<Rightarrow> (if showLanding s then s\<lparr>showLanding := False\<rparr> else s)
      | Home \<Rightarrow> (if showLanding s then s else s\<lparr>showLanding := True\<rparr>)
      | SelectSection v \<Rightarrow> (if showLanding s then s else onValueChange v s)
      | OpenCreate \<Rightarrow> (if showLanding s then s else openCreateDialog s)
      | OpenEdit r \<Rightarrow>
          (if \<not> showLanding s \<and> row_rendered r s then openEditDialog r s else s)
      | Delete r confirmed \<Rightarrow>
          (if \<not> showLanding s \<and> row_rendered r s then handleDelete (rec_id r) confirmed s
           else s)
      | Cancel \<Rightarrow> (if \<not> showLanding s \<and> dialogOpen s then onCancel s else s)
      | DialogClose \<Rightarrow> (if \<not> showLanding s \<and> dialogOpen s then onOpenChange False s else s)
      | Save data \<Rightarrow> (if \<not> showLanding s \<and> dialogOpen s then handleSave data s else s)
      | Upload \<Rightarrow> (if \<not> showLanding s \<and> dialogOpen s then handleFileUpload s else s))"

fun run :: "event list \<Rightarrow> app \<Rightarrow> app" where
  "run [] s = s"
| "run (e # es) s = run es (step e s)"

text \<open>The component once mounted: the initial values, and the effect has run once.\<close>

definition mount :: app where
  "mount =
     loadRecords funding_opportunity
       \<lparr>showLanding = True, activeSection = funding_opportunity, records = JArr [],
        loading = False, dialogOpen = False, editingRecord = None,
        toasts = [], requests = [], inflight = Map.empty\<rparr>"

text \<open>
  The edit session read off the state: the dialog is shown when \<open>dialogOpen\<close>, and it is
  an edit dialog (title, \<open>isEditing\<close>) when \<open>editingRecord\<close> is set.
\<close>

datatype mode = Closed | Creating | Editing

definition session_mode :: "app \<Rightarrow> mode" where
  "session_mode s =
     (if \<not> dialogOpen s then Closed
      else (case editingRecord s of None \<Rightarrow> Creating | Some r \<Rightarrow> Editing))"

subsection \<open>Replies of the server\<close>

text \<open>
  The reply of \<open>GET {base}/{section}\<close> with the given records, and a reply with the
  given status whose body carries an \<open>error\<close> string.
\<close>

definition list_reply :: "json list \<Rightarrow> fetch_result" where
  "list_reply rs = Resolved \<lparr>status = 200, body = Parsed (JObj [(''records'', JArr rs)])\<rparr>"

definition error_reply :: "nat \<Rightarrow> string \<Rightarrow> fetch_result" where
  "error_reply code m = Resolved \<lparr>status = code, body = Parsed (JObj [(''error'', JStr m)])\<rparr>"

definition is_OpenEdit :: "event \<Rightarrow> bool" where
  "is_OpenEdit e = (case e of OpenEdit r \<Rightarrow> True | _ \<Rightarrow> False)"

section \<open>Basic facts\<close>

lemmas handler_defs =
  loadRecords_def loadRecords_done_def fetch_def onValueChange_def
  handleSave_def handleSave_done_def handleDelete_def handleDelete_done_def
  handleFileUpload_def openCreateDialog_def openEditDialog_def onCancel_def onOpenChange_def

lemmas try_defs =
  loadRecords_try_def handleSave_try_def handleDelete_try_def handleFileUpload_try_def
  raise_unless_ok_def ok_def

lemmas run_defs =
  step_def mount_def resolve_def list_reply_def error_reply_def session_mode_def
  row_rendered_def row_of_def

lemma resolve_LoadRecords:
  "inflight s n = Some (LoadRecords sec) \<Longrightarrow>
   resolve n fr s = loadRecords_done fr (s\<lparr>inflight := (inflight s)(n := None)\<rparr>)"
  by (simp add: resolve_def)

lemma resolve_HandleSave:
  "inflight s n = Some (HandleSave sec e) \<Longrightarrow>
   resolve n fr s = handleSave_done sec e fr (s\<lparr>inflight := (inflight s)(n := None)\<rparr>)"
  by (simp add: resolve_def)

lemma resolve_HandleDelete:
  "inflight s n = Some (HandleDelete sec) \<Longrightarrow>
   resolve n fr s = handleDelete_done sec fr (s\<lparr>inflight := (inflight s)(n := None)\<rparr>)"
  by (simp add: resolve_def)

lemma resolve_HandleFileUpload:
  "inflight s n = Some HandleFileUpload \<Longrightarrow>
   resolve n fr s = s\<lparr>inflight := (inflight s)(n := None)\<rparr>"
  by (simp add: resolve_def)

lemma records_loadRecords_done:
  "records (loadRecords_done fr s) =
     (case loadRecords_try fr of Inr v \<Rightarrow> v | Inl m \<Rightarrow> JArr [])"
  by (simp add: loadRecords_done_def split: sum.splits)

lemma loadRecords_try_list_reply: "loadRecords_try (list_reply xs) = Inr (JArr xs)"
  by (simp add: loadRecords_try_def list_reply_def raise_unless_ok_def ok_def)

lemma handleSave_inflight:
  "inflight (handleSave d s) (length (requests s)) =
     Some (HandleSave (activeSection s) (editingRecord s \<noteq> None))"
  by (simp add: handleSave_def fetch_def split: option.splits)

lemma raise_unless_ok_Inr: "(raise_unless_ok label r = Inr u) = ok r"
  by (simp add: raise_unless_ok_def split: json_result.splits sum.splits)

lemma handleSave_try_ok: "ok r \<Longrightarrow> handleSave_try (Resolved r) = Inr ()"
  by (simp add: handleSave_try_def raise_unless_ok_Inr)

lemma handleSave_try_Inr:
  "handleSave_try fr = Inr u \<Longrightarrow> \<exists>r. fr = Resolved r \<and> ok r"
  by (cases fr) (simp_all add: handleSave_try_def raise_unless_ok_Inr)

lemma resolve_closes:
  assumes "dialogOpen s" and "\<not> dialogOpen (resolve n fr s)"
  shows "\<exists>r sec ed. fr = Resolved r \<and> ok r \<and> inflight s n = Some (HandleSave sec ed)"
proof (cases "inflight s n")
  case None
  with assms show ?thesis by (simp add: resolve_def)
next
  case (Some k)
  show ?thesis
  proof (cases k)
    case (LoadRecords sec)
    with Some assms show ?thesis
      by (simp add: resolve_LoadRecords loadRecords_done_def split: sum.splits)
  next
    case (HandleSave sec ed)
    show ?thesis
    proof (cases "handleSave_try fr")
      case (Inl m)
      with Some HandleSave assms show ?thesis
        by (simp add: resolve_HandleSave handleSave_done_def)
    next
      case (Inr u)
      then obtain r where "fr = Resolved r" and "ok r"
        using handleSave_try_Inr by blast
      with Some HandleSave show ?thesis by simp
    qed
  next
    case (HandleDelete sec)
    with Some assms show ?thesis
      by (simp add: resolve_HandleDelete handleDelete_done_def loadRecords_def fetch_def
            split: sum.splits)
  next
    case HandleFileUpload
    with Some assms show ?thesis by (simp add: resolve_HandleFileUpload)
  qed
qed

lemma resolve_no_target:
  "editingRecord s = None \<Longrightarrow> editingRecord (resolve n fr s) = None"
  by (simp add: resolve_def loadRecords_done_def handleSave_done_def handleDelete_done_def
        loadRecords_def fetch_def split: option.splits pending.splits sum.splits)

lemma step_no_target:
  "editingRecord s = None \<Longrightarrow> \<not> is_OpenEdit e \<Longrightarrow> editingRecord (step e s) = None"
  by (cases e)
     (simp_all add: step_def is_OpenEdit_def resolve_no_target onValueChange_def loadRecords_def
        fetch_def openCreateDialog_def onCancel_def onOpenChange_def handleSave_def
        handleDelete_def handleFileUpload_def split: option.splits)

lemma run_no_target:
  "editingRecord s = None \<Longrightarrow> \<not> list_ex is_OpenEdit evs \<Longrightarrow>
   editingRecord (run evs s) = None"
  by (induction evs arbitrary: s) (simp_all add: step_no_target)

section \<open>Reloading while another reload is in flight\<close>

text \<open>
  C1, as stated, fails. The user leaves the landing page and selects Applications, then
  Budget, before either list has arrived (calls 1 and 2; call 0 is the load of the
  mount). The Budget list arrives first, the Applications list after it. The claim
  wants the late Applications list discarded; \<open>loadRecords\<close> stores it: the Budget tab
  is active and \<open>records\<close> holds the Applications record.
\<close>

theorem stale_reload_overwrites_counterexample:
  "records (run [GetStarted, SelectSection application, SelectSection budget,
                 Settle 2 (list_reply [JObj [(''id'', JStr ''b1'')]]),
                 Settle 1 (list_reply [JObj [(''id'', JStr ''a1'')]])] mount)
     = JArr [JObj [(''id'', JStr ''a1'')]]
   \<and> activeSection (run [GetStarted, SelectSection application, SelectSection budget,
                 Settle 2 (list_reply [JObj [(''id'', JStr ''b1'')]]),
                 Settle 1 (list_reply [JObj [(''id'', JStr ''a1'')]])] mount) = budget
   \<and> requests (run [GetStarted, SelectSection application, SelectSection budget] mount) ! 1
       = \<lparr>req_method = GET, path = ''/application'', payload = None\<rparr>
   \<and> requests (run [GetStarted, SelectSection application, SelectSection budget] mount) ! 2
       = \<lparr>req_method = GET, path = ''/budget'', payload = None\<rparr>"
  by (simp add: handler_defs try_defs run_defs)

text \<open>
  C1, amended. For reloads issued for sections A then B, both calls are in flight, B is
  the active section and stays so, and the record store applies every result when it
  arrives, whatever section it was requested for. After both calls have settled,
  \<open>records\<close> holds what the call that settled last delivered: when A's call settles
  after B's and delivers the list \<open>xs\<close>, the records are \<open>xs\<close> (and empty when A's call
  fails), whatever B's call delivered; when B's call settles last with the list \<open>ys\<close>,
  the records are \<open>ys\<close>.
\<close>

theorem reload_last_settled_wins:
  assumes "A \<noteq> activeSection s" and "B \<noteq> A"
      and "s2 = onValueChange B (onValueChange A s)"
      and "a = length (requests s)" and "b = Suc (length (requests s))"
  shows "inflight s2 a = Some (LoadRecords A) \<and> inflight s2 b = Some (LoadRecords B)
       \<and> activeSection s2 = B
       \<and> activeSection (resolve a ra (resolve b rb s2)) = B
       \<and> records (resolve a (list_reply xs) (resolve b rb s2)) = JArr xs
       \<and> records (resolve b (list_reply ys) (resolve a ra s2)) = JArr ys
       \<and> records (resolve a ra (resolve b rb s2))
           = (case loadRecords_try ra of Inr v \<Rightarrow> v | Inl m \<Rightarrow> JArr [])
       \<and> records (resolve b rb (resolve a ra s2))
           = (case loadRecords_try rb of Inr v \<Rightarrow> v | Inl m \<Rightarrow> JArr [])"
proof -
  have s2: "s2 = loadRecords B (loadRecords A (s\<lparr>activeSection := A\<rparr>)\<lparr>activeSection := B\<rparr>)"
    unfolding assms(3) using assms(1,2) by (simp add: onValueChange_def loadRecords_def fetch_def)
  have ia: "inflight s2 a = Some (LoadRecords A)"
    unfolding s2 assms(4) by (simp add: loadRecords_def fetch_def)
  have ib: "inflight s2 b = Some (LoadRecords B)"
    unfolding s2 assms(5) by (simp add: loadRecords_def fetch_def)
  have act: "activeSection s2 = B"
    unfolding s2 by (simp add: loadRecords_def fetch_def)
  have ia': "inflight (resolve b fr s2) a = Some (LoadRecords A)" for fr
    using ia ib assms(4,5) by (simp add: resolve_LoadRecords loadRecords_done_def split: sum.splits)
  have ib': "inflight (resolve a fr s2) b = Some (LoadRecords B)" for fr
    using ia ib assms(4,5) by (simp add: resolve_LoadRecords loadRecords_done_def split: sum.splits)
  have actb: "activeSection (resolve b rb s2) = B"
    using ib act by (simp add: resolve_LoadRecords loadRecords_done_def split: sum.splits)
  have r1: "records (resolve a fr (resolve b rb s2))
              = (case loadRecords_try fr of Inr v \<Rightarrow> v | Inl m \<Rightarrow> JArr [])" for fr
    using ia' [of rb] by (simp add: resolve_LoadRecords records_loadRecords_done)
  have r2: "records (resolve b fr (resolve a ra s2))
              = (case loadRecords_try fr of Inr v \<Rightarrow> v | Inl m \<Rightarrow> JArr [])" for fr
    using ib' [of ra] by (simp add: resolve_LoadRecords records_loadRecords_done)
  have a2: "activeSection (resolve a ra (resolve b rb s2)) = B"
    using ia' [of rb] actb by (simp add: resolve_LoadRecords loadRecords_done_def split: sum.splits)
  show ?thesis
    using ia ib act a2 r1 [of ra] r2 [of rb] r1 [of "list_reply xs"] r2 [of "list_reply ys"]
    by (simp add: loadRecords_try_list_reply)
qed

theorem reload_last_settled_wins_witness:
  "application \<noteq> activeSection (run [GetStarted] mount) \<and> budget \<noteq> application
   \<and> records (resolve 1 (list_reply [JObj [(''id'', JStr ''a1'')]])
         (resolve 2 (list_reply [JObj [(''id'', JStr ''b1'')]])
            (onValueChange budget (onValueChange application (run [GetStarted] mount)))))
       = JArr [JObj [(''id'', JStr ''a1'')]]"
  using reload_last_settled_wins [of application "run [GetStarted] mount" budget
      "onValueChange budget (onValueChange application (run [GetStarted] mount))" 1 2
      "list_reply [JObj [(''id'', JStr ''a1'')]]" "list_reply [JObj [(''id'', JStr ''b1'')]]"
      "[JObj [(''id'', JStr ''a1'')]]" "[JObj [(''id'', JStr ''b1'')]]"]
  by (simp add: handler_defs try_defs run_defs)

section \<open>Switching the section while the dialog is open\<close>

text \<open>
  C2, as stated, fails. The list of the mount arrives with record \<open>r1\<close>, the user leaves
  the landing page and opens the edit dialog on the row of \<open>r1\<close>. Selecting the
  Applications tab then starts the reload of Applications (call 1) and the session is
  still Editing, with the same target: nothing closes it.
\<close>

theorem section_switch_keeps_session_counterexample:
  "session_mode (run [Settle 0 (list_reply [JObj [(''id'', JStr ''r1'')]]), GetStarted,
       OpenEdit (Record ''r1'' []), SelectSection application] mount) = Editing
   \<and> editingRecord (run [Settle 0 (list_reply [JObj [(''id'', JStr ''r1'')]]), GetStarted,
       OpenEdit (Record ''r1'' []), SelectSection application] mount) = Some (Record ''r1'' [])
   \<and> activeSection (run [Settle 0 (list_reply [JObj [(''id'', JStr ''r1'')]]), GetStarted,
       OpenEdit (Record ''r1'' []), SelectSection application] mount) = application
   \<and> inflight (run [Settle 0 (list_reply [JObj [(''id'', JStr ''r1'')]]), GetStarted,
       OpenEdit (Record ''r1'' []), SelectSection application] mount) 1
       = Some (LoadRecords application)
   \<and> session_mode (run [Settle 0 (list_reply [JObj [(''id'', JStr ''r1'')]]), GetStarted,
       OpenEdit (Record ''r1'' [])] mount) = Editing"
  by (simp add: handler_defs try_defs run_defs)

text \<open>
  C2, amended. Changing the active section leaves the edit session as it is (same mode,
  same target) in every state, makes the chosen section the active one, and issues the
  reload of the new section when the section has changed. An open session is closed by
  one step only when that step is the form's cancel, the dialog's own close control, or
  the success response of a save in flight.
\<close>

theorem onValueChange_keeps_session:
  "session_mode (onValueChange v s) = session_mode s
   \<and> dialogOpen (onValueChange v s) = dialogOpen s
   \<and> editingRecord (onValueChange v s) = editingRecord s
   \<and> activeSection (onValueChange v s) = v
   \<and> requests (onValueChange v s) =
       (if v = activeSection s then requests s
        else requests s @ [\<lparr>req_method = GET, path = ''/'' @ section_path v, payload = None\<rparr>])
   \<and> (dialogOpen s \<and> \<not> dialogOpen (step e s) \<longrightarrow>
        e = Cancel \<or> e = DialogClose
        \<or> (\<exists>n r sec ed. e = Settle n (Resolved r) \<and> ok r
              \<and> inflight s n = Some (HandleSave sec ed)))"
proof -
  have closes: "e = Cancel \<or> e = DialogClose
        \<or> (\<exists>n r sec ed. e = Settle n (Resolved r) \<and> ok r
              \<and> inflight s n = Some (HandleSave sec ed))"
    if "dialogOpen s" and "\<not> dialogOpen (step e s)"
  proof (cases e)
    case (Settle n fr)
    with that have "\<not> dialogOpen (resolve n fr s)" by (simp add: step_def)
    with that(1) obtain r sec ed
      where "fr = Resolved r" and "ok r" and "inflight s n = Some (HandleSave sec ed)"
      using resolve_closes by blast
    with Settle show ?thesis by simp
  qed (use that in \<open>simp_all add: step_def handler_defs split: if_splits option.splits\<close>)
  show ?thesis
    using closes
    by (simp add: onValueChange_def loadRecords_def fetch_def session_mode_def)
qed

theorem onValueChange_keeps_session_witness:
  "dialogOpen (run [Settle 0 (list_reply [JObj [(''id'', JStr ''r1'')]]), GetStarted,
       OpenEdit (Record ''r1'' [])] mount)
   \<and> \<not> dialogOpen (step Cancel (run [Settle 0 (list_reply [JObj [(''id'', JStr ''r1'')]]),
       GetStarted, OpenEdit (Record ''r1'' [])] mount))
   \<and> session_mode (onValueChange application
       (run [Settle 0 (list_reply [JObj [(''id'', JStr ''r1'')]]), GetStarted,
          OpenEdit (Record ''r1'' [])] mount)) = Editing"
  using onValueChange_keeps_session [of application
      "run [Settle 0 (list_reply [JObj [(''id'', JStr ''r1'')]]), GetStarted,
         OpenEdit (Record ''r1'' [])] mount" Cancel]
  by (simp add: handler_defs try_defs run_defs)

section \<open>The target of the edit session\<close>

text \<open>
  C3. The target should be present exactly in mode Editing. The list arrives with record
  \<open>r1\<close>, the user opens the edit dialog on it and closes the dialog through its own
  close control (\<open>onOpenChange(false)\<close>): the session is Closed and still carries
  \<open>r1\<close> as its target. Closing through the form's cancel clears the target.
\<close>

theorem dialog_close_keeps_target:
  "session_mode (run [Settle 0 (list_reply [JObj [(''id'', JStr ''r1'')]]), GetStarted,
                      OpenEdit (Record ''r1'' []), DialogClose] mount) = Closed
   \<and> editingRecord (run [Settle 0 (list_reply [JObj [(''id'', JStr ''r1'')]]), GetStarted,
                      OpenEdit (Record ''r1'' []), DialogClose] mount)
       = Some (Record ''r1'' [])
   \<and> editingRecord (run [Settle 0 (list_reply [JObj [(''id'', JStr ''r1'')]]), GetStarted,
                      OpenEdit (Record ''r1'' []), Cancel] mount) = None"
  by (simp add: handler_defs try_defs run_defs)

section \<open>Saving\<close>

text \<open>
  C4, as stated, fails. The user opens the create dialog under Grants and saves; while
  the call (2) is in flight the dialog is closed with its own close control and the
  Budget tab is selected. The save then succeeds: the reload it issues (call 4) is for
  \<open>grant\<close>, the section that was active when the save was performed, while the
  currently active section is \<open>budget\<close>.
\<close>

theorem save_reload_stale_section_counterexample:
  "activeSection (run [Settle 0 (list_reply []), GetStarted, SelectSection grant, OpenCreate,
       Save (JObj [(''title'', JStr ''X'')]), DialogClose, SelectSection budget,
       Settle 2 (Resolved \<lparr>status = 201,
          body = Parsed (JObj [(''id'', JStr ''g1''), (''title'', JStr ''X'')])\<rparr>)] mount)
     = budget
   \<and> requests (run [Settle 0 (list_reply []), GetStarted, SelectSection grant, OpenCreate,
       Save (JObj [(''title'', JStr ''X'')]), DialogClose, SelectSection budget,
       Settle 2 (Resolved \<lparr>status = 201,
          body = Parsed (JObj [(''id'', JStr ''g1''), (''title'', JStr ''X'')])\<rparr>)] mount) ! 4
     = \<lparr>req_method = GET, path = ''/grant'', payload = None\<rparr>
   \<and> length (requests (run [Settle 0 (list_reply []), GetStarted, SelectSection grant, OpenCreate,
       Save (JObj [(''title'', JStr ''X'')]), DialogClose, SelectSection budget,
       Settle 2 (Resolved \<lparr>status = 201,
          body = Parsed (JObj [(''id'', JStr ''g1''), (''title'', JStr ''X'')])\<rparr>)] mount)) = 5
   \<and> requests (run [Settle 0 (list_reply []), GetStarted, SelectSection grant, OpenCreate,
       Save (JObj [(''title'', JStr ''X'')])] mount) ! 2
     = \<lparr>req_method = POST, path = ''/grant'', payload = Some (JObj [(''title'', JStr ''X'')])\<rparr>
   \<and> session_mode (run [Settle 0 (list_reply []), GetStarted, SelectSection grant,
       OpenCreate] mount) = Creating"
  by (simp add: handler_defs try_defs run_defs)

text \<open>
  C4, amended. A save is performed in a state \<open>s\<close> whose session is Creating or Editing;
  any events \<open>evs\<close> may follow while the call is in flight. When the response is a
  success (\<open>ok\<close>), one success notification is emitted, the session becomes Closed with
  no target, and a reload is issued for the section that was active when the save was
  performed. The active section itself is not changed by the response, so the reload is
  for the currently active section exactly when the active section is the one of the
  save.
\<close>

theorem save_success_closes_and_reloads:
  assumes "session_mode s = Creating \<or> session_mode s = Editing"
      and "ok r"
      and "s2 = run evs (handleSave d s)"
      and "inflight s2 (length (requests s)) =
             Some (HandleSave (activeSection s) (editingRecord s \<noteq> None))"
      and "s3 = resolve (length (requests s)) (Resolved r) s2"
  shows "toasts s3 = toasts s2 @
           [ToastSuccess (if editingRecord s \<noteq> None then ''Record updated successfully''
                          else ''Record created successfully'')]
       \<and> session_mode s3 = Closed \<and> dialogOpen s3 = False \<and> editingRecord s3 = None
       \<and> requests s3 = requests s2 @
           [\<lparr>req_method = GET, path = ''/'' @ section_path (activeSection s), payload = None\<rparr>]
       \<and> inflight s3 (length (requests s2)) = Some (LoadRecords (activeSection s))
       \<and> loading s3
       \<and> activeSection s3 = activeSection s2
       \<and> inflight (handleSave d s) (length (requests s))
           = Some (HandleSave (activeSection s) (editingRecord s \<noteq> None))"
proof -
  have "s3 = handleSave_done (activeSection s) (editingRecord s \<noteq> None) (Resolved r)
               (s2\<lparr>inflight := (inflight s2)(length (requests s) := None)\<rparr>)"
    unfolding assms(5) using assms(4) by (rule resolve_HandleSave)
  then show ?thesis
    using assms(2)
    by (simp add: handleSave_done_def handleSave_try_ok loadRecords_def fetch_def
          session_mode_def handleSave_inflight)
qed

text \<open>
  The scenario of the specification: a create against \<open>grant\<close> answered 201 (an upload
  is started while the save is in flight).
\<close>

theorem save_success_closes_and_reloads_witness:
  "session_mode (run [Settle 0 (list_reply []), GetStarted, SelectSection grant,
       OpenCreate] mount) = Creating
   \<and> ok \<lparr>status = 201, body = Parsed (JObj [(''id'', JStr ''g1''), (''title'', JStr ''X'')])\<rparr>
   \<and> session_mode (run [Settle 0 (list_reply []), GetStarted, SelectSection grant, OpenCreate,
          Save (JObj [(''title'', JStr ''X'')]), Upload,
          Settle 2 (Resolved \<lparr>status = 201,
             body = Parsed (JObj [(''id'', JStr ''g1''), (''title'', JStr ''X'')])\<rparr>)] mount) = Closed
   \<and> requests (run [Settle 0 (list_reply []), GetStarted, SelectSection grant, OpenCreate,
          Save (JObj [(''title'', JStr ''X'')]), Upload,
          Settle 2 (Resolved \<lparr>status = 201,
             body = Parsed (JObj [(''id'', JStr ''g1''), (''title'', JStr ''X'')])\<rparr>)] mount) ! 4
       = \<lparr>req_method = GET, path = ''/grant'', payload = None\<rparr>"
  using save_success_closes_and_reloads
    [of "run [Settle 0 (list_reply []), GetStarted, SelectSection grant, OpenCreate] mount"
      "\<lparr>status = 201, body = Parsed (JObj [(''id'', JStr ''g1''), (''title'', JStr ''X'')])\<rparr>"
      "run [Upload] (handleSave (JObj [(''title'', JStr ''X'')])
         (run [Settle 0 (list_reply []), GetStarted, SelectSection grant, OpenCreate] mount))"
      "[Upload]" "JObj [(''title'', JStr ''X'')]"
      "resolve 2 (Resolved \<lparr>status = 201,
            body = Parsed (JObj [(''id'', JStr ''g1''), (''title'', JStr ''X'')])\<rparr>)
         (run [Upload] (handleSave (JObj [(''title'', JStr ''X'')])
            (run [Settle 0 (list_reply []), GetStarted, SelectSection grant, OpenCreate] mount)))"]
  by (simp add: handler_defs try_defs run_defs)

text \<open>
  C5. When a save in flight fails (its \<open>try\<close> block throws with message \<open>m\<close>: the
  fetch was rejected, or the response was not \<open>ok\<close>), the only changes to the state are
  that the call is no longer in flight and that exactly one error notification carrying
  \<open>m\<close> has been added: the session (mode and target) is unchanged, no request is issued,
  the records are unchanged.
\<close>

theorem save_failure_keeps_session:
  assumes "inflight s n = Some (HandleSave sec e)"
      and "handleSave_try fr = Inl m"
  shows "resolve n fr s =
           s\<lparr>toasts := toasts s @ [ToastError (''Failed to save record: '' @ m)],
             inflight := (inflight s)(n := None)\<rparr>
       \<and> toasts (resolve n fr s) = toasts s @ [ToastError (''Failed to save record: '' @ m)]
       \<and> session_mode (resolve n fr s) = session_mode s
       \<and> dialogOpen (resolve n fr s) = dialogOpen s
       \<and> editingRecord (resolve n fr s) = editingRecord s
       \<and> requests (resolve n fr s) = requests s
       \<and> records (resolve n fr s) = records s"
  using assms by (simp add: resolve_HandleSave handleSave_done_def session_mode_def)

theorem save_failure_keeps_session_witness:
  "inflight (run [Settle 0 (list_reply [JObj [(''id'', JStr ''r1'')]]), GetStarted,
                  OpenEdit (Record ''r1'' []), Save (JObj [(''title'', JStr ''Y'')])] mount) 1
     = Some (HandleSave funding_opportunity True)
   \<and> handleSave_try (error_reply 500 ''boom'') = Inl ''boom''
   \<and> toasts (run [Settle 0 (list_reply [JObj [(''id'', JStr ''r1'')]]), GetStarted,
                   OpenEdit (Record ''r1'' []), Save (JObj [(''title'', JStr ''Y'')]),
                   Settle 1 (error_reply 500 ''boom'')] mount)
       = [ToastError ''Failed to save record: boom'']
   \<and> session_mode (run [Settle 0 (list_reply [JObj [(''id'', JStr ''r1'')]]), GetStarted,
                   OpenEdit (Record ''r1'' []), Save (JObj [(''title'', JStr ''Y'')]),
                   Settle 1 (error_reply 500 ''boom'')] mount) = Editing
   \<and> editingRecord (run [Settle 0 (list_reply [JObj [(''id'', JStr ''r1'')]]), GetStarted,
                   OpenEdit (Record ''r1'' []), Save (JObj [(''title'', JStr ''Y'')]),
                   Settle 1 (error_reply 500 ''boom'')] mount) = Some (Record ''r1'' [])"
  using save_failure_keeps_session
    [of "run [Settle 0 (list_reply [JObj [(''id'', JStr ''r1'')]]), GetStarted,
              OpenEdit (Record ''r1'' []), Save (JObj [(''title'', JStr ''Y'')])] mount"
      1 funding_opportunity True "error_reply 500 ''boom''" "''boom''"]
  by (simp add: handler_defs try_defs run_defs)

section \<open>The message of a server error\<close>

text \<open>
  C6, as stated, fails. Record \<open>r1\<close> of \<open>invoice\<close> is deleted and the server answers
  404 with \<open>{error: "not found"}\<close>: the notification is not \<open>not found\<close> but
  \<open>Failed to delete record: not found\<close>.
\<close>

theorem delete_error_toast_counterexample:
  "toasts (run [Settle 0 (list_reply []), GetStarted, SelectSection invoice,
                Settle 1 (list_reply [JObj [(''id'', JStr ''r1'')]]),
                Delete (Record ''r1'' []) True,
                Settle 2 (error_reply 404 ''not found'')] mount)
     = [ToastError ''Failed to delete record: not found'']
   \<and> toasts (run [Settle 0 (list_reply []), GetStarted, SelectSection invoice,
                Settle 1 (list_reply [JObj [(''id'', JStr ''r1'')]]),
                Delete (Record ''r1'' []) True,
                Settle 2 (error_reply 404 ''not found'')] mount)
     \<noteq> [ToastError ''not found'']
   \<and> requests (run [Settle 0 (list_reply []), GetStarted, SelectSection invoice,
                Settle 1 (list_reply [JObj [(''id'', JStr ''r1'')]]),
                Delete (Record ''r1'' []) True] mount) ! 2
     = \<lparr>req_method = DELETE, path = ''/invoice/r1'', payload = None\<rparr>"
  by (simp add: handler_defs try_defs run_defs)

text \<open>
  C6, amended. Take a response that is not \<open>ok\<close> and whose body is a JSON object. In
  every operation (load, save, delete, upload) the message of the resulting error is
  the operation's generic label when the body's \<open>error\<close> field is absent or falsy (the
  empty string, for one), and the field converted to a string otherwise: the string
  itself for a string, and for a field that cannot be converted the message of the
  TypeError the conversion throws. The notification of a failed load, save or delete is
  the operation's prefix (\<open>Failed to delete record: \<close> for a delete) followed by that
  message, exactly one; an upload notifies nothing. No request is issued; the records
  are unchanged, except for a load, which empties them.
\<close>

theorem server_error_message:
  assumes "\<not> ok r" and "body r = Parsed (JObj kvs)"
      and "msg = (\<lambda>label. case map_of kvs ''error'' of
                     None \<Rightarrow> label
                   | Some v \<Rightarrow>
                       if truthy v then (case js_String v of Inl e \<Rightarrow> e | Inr m \<Rightarrow> m)
                       else label)"
      and "inflight s n = Some k"
  shows "loadRecords_try (Resolved r) = Inl (msg ''Failed to load records'')
       \<and> handleSave_try (Resolved r) = Inl (msg ''Failed to save record'')
       \<and> handleDelete_try (Resolved r) = Inl (msg ''Failed to delete record'')
       \<and> handleFileUpload_try (Resolved r) = Inl (msg ''Failed to upload file'')
       \<and> (map_of kvs ''error'' = Some (JStr e) \<longrightarrow> msg label = (if e = [] then label else e))
       \<and> toasts (resolve n (Resolved r) s) = toasts s @
           (case k of
              LoadRecords sec \<Rightarrow>
                [ToastError (''Failed to load records: '' @ msg ''Failed to load records'')]
            | HandleSave sec ed \<Rightarrow>
                [ToastError (''Failed to save record: '' @ msg ''Failed to save record'')]
            | HandleDelete sec \<Rightarrow>
                [ToastError (''Failed to delete record: '' @ msg ''Failed to delete record'')]
            | HandleFileUpload \<Rightarrow> [])
       \<and> requests (resolve n (Resolved r) s) = requests s
       \<and> records (resolve n (Resolved r) s) =
           (case k of LoadRecords sec \<Rightarrow> JArr [] | _ \<Rightarrow> records s)"
proof -
  have raise: "raise_unless_ok label r = Inl (msg label)" for label
    using assms(1,2)
    by (simp add: raise_unless_ok_def assms(3) split: option.splits sum.splits)
  have trys:
    "loadRecords_try (Resolved r) = Inl (msg ''Failed to load records'')"
    "handleSave_try (Resolved r) = Inl (msg ''Failed to save record'')"
    "handleDelete_try (Resolved r) = Inl (msg ''Failed to delete record'')"
    "handleFileUpload_try (Resolved r) = Inl (msg ''Failed to upload file'')"
    by (simp_all add: loadRecords_try_def handleSave_try_def handleDelete_try_def
          handleFileUpload_try_def raise)
  have str: "map_of kvs ''error'' = Some (JStr e) \<longrightarrow> msg label = (if e = [] then label else e)"
    by (simp add: assms(3))
  have eff: "toasts (resolve n (Resolved r) s) = toasts s @
           (case k of
              LoadRecords sec \<Rightarrow>
                [ToastError (''Failed to load records: '' @ msg ''Failed to load records'')]
            | HandleSave sec ed \<Rightarrow>
                [ToastError (''Failed to save record: '' @ msg ''Failed to save record'')]
            | HandleDelete sec \<Rightarrow>
                [ToastError (''Failed to delete record: '' @ msg ''Failed to delete record'')]
            | HandleFileUpload \<Rightarrow> [])
       \<and> requests (resolve n (Resolved r) s) = requests s
       \<and> records (resolve n (Resolved r) s) =
           (case k of LoadRecords sec \<Rightarrow> JArr [] | _ \<Rightarrow> records s)"
  proof (cases k)
    case (LoadRecords sec)
    with assms(4) show ?thesis
      by (simp add: resolve_LoadRecords loadRecords_done_def trys)
  next
    case (HandleSave sec ed)
    with assms(4) show ?thesis
      by (simp add: resolve_HandleSave handleSave_done_def trys)
  next
    case (HandleDelete sec)
    with assms(4) show ?thesis
      by (simp add: resolve_HandleDelete handleDelete_done_def trys)
  next
    case HandleFileUpload
    with assms(4) show ?thesis
      by (simp add: resolve_HandleFileUpload)
  qed
  show ?thesis
    using trys str eff by blast
qed

theorem server_error_message_witness:
  "\<not> ok \<lparr>status = 404, body = Parsed (JObj [(''error'', JStr ''not found'')])\<rparr>
   \<and> inflight (run [Settle 0 (list_reply []), GetStarted, SelectSection invoice,
                Settle 1 (list_reply [JObj [(''id'', JStr ''r1'')]]),
                Delete (Record ''r1'' []) True] mount) 2 = Some (HandleDelete invoice)
   \<and> handleDelete_try (error_reply 404 ''not found'') = Inl ''not found''
   \<and> toasts (run [Settle 0 (list_reply []), GetStarted, SelectSection invoice,
                Settle 1 (list_reply [JObj [(''id'', JStr ''r1'')]]),
                Delete (Record ''r1'' []) True, Settle 2 (error_reply 404 ''not found'')] mount)
       = [ToastError ''Failed to delete record: not found'']
   \<and> records (run [Settle 0 (list_reply []), GetStarted, SelectSection invoice,
                Settle 1 (list_reply [JObj [(''id'', JStr ''r1'')]]),
                Delete (Record ''r1'' []) True, Settle 2 (error_reply 404 ''not found'')] mount)
       = JArr [JObj [(''id'', JStr ''r1'')]]"
  using server_error_message
    [of "\<lparr>status = 404, body = Parsed (JObj [(''error'', JStr ''not found'')])\<rparr>"
      "[(''error'', JStr ''not found'')]" "\<lambda>label. ''not found''"
      "run [Settle 0 (list_reply []), GetStarted, SelectSection invoice,
                Settle 1 (list_reply [JObj [(''id'', JStr ''r1'')]]),
                Delete (Record ''r1'' []) True] mount" 2 "HandleDelete invoice"
      "''not found''" "''Failed to delete record''"]
  by (simp add: handler_defs try_defs run_defs)

section \<open>Deleting asks first\<close>

text \<open>
  C7. \<open>handleDelete\<close> issues no network call unless the confirmation was affirmative:
  declined, it changes nothing at all (no request, no notification, no state change);
  and it issues a call exactly when confirmed.
\<close>

theorem handleDelete_needs_confirmation:
  "handleDelete i False s = s
   \<and> step (Delete rw False) s = s
   \<and> (requests (handleDelete i confirmed s) \<noteq> requests s) = confirmed"
  by (simp add: handleDelete_def step_def fetch_def)

section \<open>The shape of a list response\<close>

text \<open>
  C8, as stated, fails. The list call of the mount is answered 200 with the body
  \<open>{records: "oops"}\<close>, which has no array of records. The load does not fail: the
  \<open>try\<close> block yields the string as its value, the string is stored as the records, and
  no error is notified.
\<close>

theorem malformed_list_accepted_counterexample:
  "ok \<lparr>status = 200, body = Parsed (JObj [(''records'', JStr ''oops'')])\<rparr>
   \<and> loadRecords_try
        (Resolved \<lparr>status = 200, body = Parsed (JObj [(''records'', JStr ''oops'')])\<rparr>)
       = Inr (JStr ''oops'')
   \<and> records (run [Settle 0
        (Resolved \<lparr>status = 200, body = Parsed (JObj [(''records'', JStr ''oops'')])\<rparr>)] mount)
       = JStr ''oops''
   \<and> toasts (run [Settle 0
        (Resolved \<lparr>status = 200, body = Parsed (JObj [(''records'', JStr ''oops'')])\<rparr>)] mount)
       = []"
  by (simp add: handler_defs try_defs run_defs)

text \<open>
  C8, amended. For a 2xx response the list operation fails only when the body is not
  JSON (with the parser's message) or is \<open>null\<close>. Every other body yields a success
  value, with no check of its shape: the \<open>records\<close> field of an object as it is when it
  is present and truthy, and the empty list otherwise.
\<close>

theorem loadRecords_try_2xx:
  assumes "ok r"
  shows "loadRecords_try (Resolved r) =
           (case body r of
              SyntaxError m \<Rightarrow> Inl m
            | Parsed data \<Rightarrow>
                (case data of
                   JNull \<Rightarrow> Inl (null_property_error ''records'')
                 | JObj kvs \<Rightarrow>
                     (case map_of kvs ''records'' of
                        None \<Rightarrow> Inr (JArr [])
                      | Some v \<Rightarrow> Inr (if truthy v then v else JArr []))
                 | _ \<Rightarrow> Inr (JArr [])))"
  using assms
  by (simp add: loadRecords_try_def raise_unless_ok_def
        split: json_result.splits json.splits option.splits)

theorem loadRecords_try_2xx_witness:
  "ok \<lparr>status = 200, body = Parsed (JObj [])\<rparr>
   \<and> loadRecords_try (Resolved \<lparr>status = 200, body = Parsed (JObj [])\<rparr>) = Inr (JArr [])"
  using loadRecords_try_2xx [of "\<lparr>status = 200, body = Parsed (JObj [])\<rparr>"]
  by (simp add: ok_def)

section \<open>A reload that fails\<close>

text \<open>
  C9, as stated, fails. The list call of the mount is rejected by the network. The
  failure does not stay inside the record store: an error notification is emitted.
\<close>

theorem failed_reload_toast_counterexample:
  "toasts (run [Settle 0 (Rejected ''Failed to fetch'')] mount)
     = [ToastError ''Failed to load records: Failed to fetch'']
   \<and> toasts (run [Settle 0 (Rejected ''Failed to fetch'')] mount) \<noteq> toasts mount"
  by (simp add: handler_defs try_defs run_defs)

text \<open>
  C9, amended. For every reload that fails with message \<open>m\<close>, the records become the
  empty list, \<open>loading\<close> becomes false, no request is issued, and exactly one error
  notification \<open>Failed to load records: m\<close> is emitted. The failure is not stored: but
  for that notification, the state is the one a successful load of an empty list leaves.
\<close>

theorem failed_reload_empties_and_notifies:
  assumes "inflight s n = Some (LoadRecords sec)"
      and "loadRecords_try fr = Inl m"
  shows "records (resolve n fr s) = JArr []
       \<and> loading (resolve n fr s) = False
       \<and> toasts (resolve n fr s) = toasts s @ [ToastError (''Failed to load records: '' @ m)]
       \<and> requests (resolve n fr s) = requests s
       \<and> resolve n fr s =
           (resolve n (list_reply []) s)
             \<lparr>toasts := toasts s @ [ToastError (''Failed to load records: '' @ m)]\<rparr>"
proof -
  have empty: "loadRecords_try (list_reply []) = Inr (JArr [])"
    by (simp add: loadRecords_try_def list_reply_def raise_unless_ok_def ok_def)
  show ?thesis
    using assms by (simp add: resolve_LoadRecords loadRecords_done_def empty)
qed

theorem failed_reload_empties_and_notifies_witness:
  "inflight mount 0 = Some (LoadRecords funding_opportunity)
   \<and> loadRecords_try (Rejected ''Failed to fetch'') = Inl ''Failed to fetch''
   \<and> records (resolve 0 (Rejected ''Failed to fetch'') mount) = JArr []
   \<and> loading (resolve 0 (Rejected ''Failed to fetch'') mount) = False"
  using failed_reload_empties_and_notifies
    [of mount 0 funding_opportunity "Rejected ''Failed to fetch''" "''Failed to fetch''"]
  by (simp add: handler_defs try_defs run_defs)

section \<open>Creating after an abandoned edit\<close>

text \<open>
  C10. \<open>openCreateDialog\<close> clears the remembered target in every state \<open>s\<close>, also one
  left with a stale target by closing the dialog. Whatever happens afterwards short of
  opening the edit dialog (events \<open>evs\<close>), the target stays cleared, and a save issues a
  create: a POST to the collection path of the active section, registered as not
  editing.
\<close>

theorem create_after_openCreate_posts:
  assumes "\<not> list_ex is_OpenEdit evs"
      and "s' = run evs (openCreateDialog s)"
  shows "editingRecord s' = None
       \<and> requests (handleSave d s') = requests s' @
           [\<lparr>req_method = POST, path = ''/'' @ section_path (activeSection s'), payload = Some d\<rparr>]
       \<and> inflight (handleSave d s') (length (requests s'))
           = Some (HandleSave (activeSection s') False)"
proof -
  have "editingRecord (openCreateDialog s) = None"
    by (simp add: openCreateDialog_def)
  then have "editingRecord s' = None"
    unfolding assms(2) using assms(1) by (rule run_no_target)
  then show ?thesis
    by (simp add: handleSave_def fetch_def)
qed

theorem create_after_openCreate_posts_witness:
  "\<not> list_ex is_OpenEdit [Upload]
   \<and> editingRecord (run [Settle 0 (list_reply [JObj [(''id'', JStr ''r1'')]]), GetStarted,
         OpenEdit (Record ''r1'' []), DialogClose] mount) = Some (Record ''r1'' [])
   \<and> requests (run [Settle 0 (list_reply [JObj [(''id'', JStr ''r1'')]]), GetStarted,
         OpenEdit (Record ''r1'' []), DialogClose, OpenCreate, Upload,
         Save (JObj [(''title'', JStr ''X'')])] mount) ! 2
       = \<lparr>req_method = POST, path = ''/funding_opportunity'',
          payload = Some (JObj [(''title'', JStr ''X'')])\<rparr>"
  using create_after_openCreate_posts [of "[Upload]"
      "run [Upload]
         (openCreateDialog (run [Settle 0 (list_reply [JObj [(''id'', JStr ''r1'')]]), GetStarted,
            OpenEdit (Record ''r1'' []), DialogClose] mount))"
      "run [Settle 0 (list_reply [JObj [(''id'', JStr ''r1'')]]), GetStarted,
         OpenEdit (Record ''r1'' []), DialogClose] mount"
      "JObj [(''title'', JStr ''X'')]"]
  by (simp add: handler_defs try_defs run_defs is_OpenEdit_def)

end
